theory Spec2Isabelle
  imports Main
begin

section \<open>Python strings and lists, as far as main.py uses them\<close>

text \<open>
  Strings are \<^typ>\<open>string\<close>. The file works with ASCII text: \<open>str.lower\<close> is modelled
  on the letters A to Z and leaves every other character alone.
\<close>

text \<open>\<open>s.startswith(p)\<close>\<close>

definition startswith :: "string \<Rightarrow> string \<Rightarrow> bool" where
  "startswith s p = (take (length p) s = p)"

text \<open>\<open>s.split(sep)\<close> for a one-character separator: never the empty list.\<close>

fun py_split :: "char \<Rightarrow> string \<Rightarrow> string list" where
  "py_split sep [] = [[]]"
| "py_split sep (c # cs) =
     (if c = sep then [] # py_split sep cs
      else (case py_split sep cs of
              w # ws \<Rightarrow> (c # w) # ws
            | [] \<Rightarrow> [[c]]))"

text \<open>\<open>s.split(sep, 1)\<close>: at most one cut, at the first separator.\<close>

definition py_split_max1 :: "char \<Rightarrow> string \<Rightarrow> string list" where
  "py_split_max1 sep s =
     (case dropWhile (\<lambda>c. c \<noteq> sep) s of
        [] \<Rightarrow> [s]
      | _ # rest \<Rightarrow> [takeWhile (\<lambda>c. c \<noteq> sep) s, rest])"

definition is_upper :: "char \<Rightarrow> bool" where
  "is_upper c = (65 \<le> (of_char c :: nat) \<and> (of_char c :: nat) \<le> 90)"

definition lower_char :: "char \<Rightarrow> char" where
  "lower_char c = (if is_upper c then char_of ((of_char c :: nat) + 32) else c)"

text \<open>\<open>s.lower()\<close>\<close>

definition py_lower :: "string \<Rightarrow> string" where
  "py_lower s = map lower_char s"

section \<open>Configuration read from the environment at start-up\<close>

text \<open>
  The module-level globals of main.py (lines 29 to 34 and 63). They are set once when the
  module is loaded and only read afterwards, so every function takes them as a record.
\<close>

record config =
  OPENAI_API_KEY :: string
  OPENAI_MODEL :: string
  ELEVENLABS_API_KEY :: string
  ELEVENLABS_VOICE_DEFAULT :: string
  VOICE_MAP :: "string \<rightharpoonup> string"

text \<open>
  \<open>_load_voice_map\<close> (lines 54 to 61). The environment is the list of \<open>os.environ.items()\<close>;
  the loop runs over it in order, a later entry overwriting an earlier one with the same
  language. \<open>k.split("_", 1)[1]\<close> is read with \<open>!\<close>: \<open>split_max1_VOICE\<close> below shows the
  index is in range whenever the guard \<open>k.startswith("VOICE_")\<close> holds.
\<close>

fun load_voice_loop :: "(string \<rightharpoonup> string) \<Rightarrow> (string \<times> string) list \<Rightarrow> (string \<rightharpoonup> string)" where
  "load_voice_loop voices [] = voices"
| "load_voice_loop voices ((k, v) # items) =
     (if startswith k ''VOICE_'' \<and> v \<noteq> []
      then (let lang = py_split_max1 (CHR ''_'') k ! 1
            in load_voice_loop (voices(lang \<mapsto> v)) items)
      else load_voice_loop voices items)"

definition load_voice_map :: "(string \<times> string) list \<Rightarrow> (string \<rightharpoonup> string)" where
  "load_voice_map environ = load_voice_loop Map.empty environ"

text \<open>\<open>os.getenv(name, default)\<close> on the same list.\<close>

definition getenv :: "(string \<times> string) list \<Rightarrow> string \<Rightarrow> string \<Rightarrow> string" where
  "getenv environ name dflt = (case map_of environ name of Some v \<Rightarrow> v | None \<Rightarrow> dflt)"

definition load_config :: "(string \<times> string) list \<Rightarrow> config" where
  "load_config environ =
     \<lparr> OPENAI_API_KEY = getenv environ ''OPENAI_API_KEY'' '''',
       OPENAI_MODEL = getenv environ ''OPENAI_MODEL'' ''gpt-4o-mini'',
       ELEVENLABS_API_KEY = getenv environ ''ELEVENLABS_API_KEY'' '''',
       ELEVENLABS_VOICE_DEFAULT = getenv environ ''ELEVENLABS_VOICE'' ''Bella'',
       VOICE_MAP = load_voice_map environ \<rparr>"

section \<open>Voice selection\<close>

text \<open>
  \<open>choose_voice_for_language\<close> (lines 65 to 74). \<open>lang.split('-')[0]\<close> is the head of a
  list that \<open>py_split_nonempty\<close> shows is never empty.
\<close>

definition choose_voice_for_language :: "config \<Rightarrow> string \<Rightarrow> string" where
  "choose_voice_for_language cfg lang =
     (if lang = [] then ELEVENLABS_VOICE_DEFAULT cfg
      else (case VOICE_MAP cfg lang of
              Some v \<Rightarrow> v
            | None \<Rightarrow>
                (if CHR ''-'' \<in> set lang
                 then (let prefix = hd (py_split (CHR ''-'') lang)
                       in (case VOICE_MAP cfg prefix of
                             Some v \<Rightarrow> v
                           | None \<Rightarrow> ELEVENLABS_VOICE_DEFAULT cfg))
                 else ELEVENLABS_VOICE_DEFAULT cfg)))"

section \<open>The world outside the program\<close>

text \<open>
  An exception that \<open>except Exception\<close> catches, with \<open>str(e)\<close>. The providers' client
  libraries and the file system raise subclasses of \<open>Exception\<close> only.
\<close>

datatype exn = Exception string

text \<open>What \<open>json.load\<close> returns and \<open>json.dump\<close> accepts; a float keeps its literal.\<close>

datatype json =
    JNull
  | JBool bool
  | JInt int
  | JFloat string
  | JStr string
  | JArr "json list"
  | JObj "(string \<times> json) list"

text \<open>
  A file holds bytes. A file whose text \<open>json.load\<close> decodes to the value \<open>v\<close> is \<open>Doc v\<close>;
  any other content is \<open>Blob\<close> of its bytes, on which \<open>json.load\<close> raises. \<open>json.dump\<close>
  leaves \<open>Doc\<close> of the value dumped: the decoder reads back what the encoder wrote. The
  handler rewrites the file from offset 0 and does not truncate it, so the file holds
  exactly the new text when that is no shorter than the old one. It is never shorter for
  a file that start-up created and only this handler has rewritten, since each rewrite
  dumps the same array with one more element; what is proved about the stored array is
  stated for such files.
\<close>

datatype file_content = Blob string | Doc json

datatype open_mode = RB | WB | W | RPlus

text \<open>
  What a provider call does: it raises, or it returns a response. Of the transcription
  response the code reads \<open>resp.get("text", "")\<close>; of the chat completion the content of
  each choice's message; of the synthesis response the status code and the chunks of
  \<open>iter_content\<close>, which may end in an exception.
\<close>

datatype asr_outcome = AsrRaises string | AsrResponse "string option"

datatype llm_outcome = LlmRaises string | LlmResponse "string option list"

datatype tts_outcome = TtsRaises string | TtsResponse nat "string list" "string option"

text \<open>The requests sent over the network, in the order they are sent.\<close>

datatype net_call =
    Transcribe string file_content string
  | ChatCompletion string "(string \<times> string) list" nat
  | TtsPost string "(string \<times> string) list" string

text \<open>
  The behaviour of the operating system and of the three providers during one request:
  \<open>open_error path mode\<close> is the message of the error \<open>open\<close> raises, if it does;
  \<open>write_error path\<close> the message of a failing write and what the file is left holding;
  \<open>remove_error\<close> that of a failing \<open>os.remove\<close>; \<open>json_error\<close> the decoder's message for
  a text that is not JSON.
\<close>

record env =
  open_error :: "string \<Rightarrow> open_mode \<Rightarrow> string option"
  write_error :: "string \<Rightarrow> (string \<times> file_content) option"
  remove_error :: "string \<Rightarrow> string option"
  json_error :: "string \<Rightarrow> string"
  asr_api :: "file_content \<Rightarrow> string \<Rightarrow> asr_outcome"
  llm_api :: "string \<Rightarrow> (string \<times> string) list \<Rightarrow> llm_outcome"
  tts_api :: "string \<Rightarrow> (string \<times> string) list \<Rightarrow> string \<Rightarrow> tts_outcome"

record state =
  files :: "string \<rightharpoonup> file_content"
  net_log :: "net_call list"

text \<open>\<open>repr\<close> of a string without quotes or escapes in it.\<close>

definition quote :: "string \<Rightarrow> string" where
  "quote p = CHR 0x27 # p @ [CHR 0x27]"

text \<open>\<open>open(path, "rb")\<close> and \<open>open(path, "r+")\<close>: the file must exist; gives its content.\<close>

definition open_existing :: "env \<Rightarrow> state \<Rightarrow> string \<Rightarrow> open_mode \<Rightarrow> exn + file_content" where
  "open_existing E s path m =
     (case open_error E path m of
        Some msg \<Rightarrow> Inl (Exception msg)
      | None \<Rightarrow>
          (case files s path of
             None \<Rightarrow> Inl (Exception (''[Errno 2] No such file or directory: '' @ quote path))
           | Some c \<Rightarrow> Inr c))"

text \<open>\<open>open(path, "wb")\<close> and \<open>open(path, "w")\<close>: creates the file or empties it.\<close>

definition open_truncate :: "env \<Rightarrow> state \<Rightarrow> string \<Rightarrow> open_mode \<Rightarrow> exn + state" where
  "open_truncate E s path m =
     (case open_error E path m of
        Some msg \<Rightarrow> Inl (Exception msg)
      | None \<Rightarrow> Inr (s\<lparr>files := (files s)(path \<mapsto> Blob [])\<rparr>))"

text \<open>\<open>f.write(bytes)\<close> on a file opened with "wb": appends to what was written so far.\<close>

definition write_bytes :: "env \<Rightarrow> state \<Rightarrow> string \<Rightarrow> string \<Rightarrow> (exn + unit) \<times> state" where
  "write_bytes E s path bytes =
     (case write_error E path of
        Some (msg, left) \<Rightarrow> (Inl (Exception msg), s\<lparr>files := (files s)(path \<mapsto> left)\<rparr>)
      | None \<Rightarrow>
          (let sofar = (case files s path of Some (Blob b) \<Rightarrow> b | _ \<Rightarrow> [])
           in (Inr (), s\<lparr>files := (files s)(path \<mapsto> Blob (sofar @ bytes))\<rparr>)))"

text \<open>\<open>json.load(f)\<close>\<close>

definition json_load :: "env \<Rightarrow> file_content \<Rightarrow> exn + json" where
  "json_load E c =
     (case c of
        Doc v \<Rightarrow> Inr v
      | Blob t \<Rightarrow> Inl (Exception (json_error E t)))"

text \<open>\<open>f.seek(0); json.dump(data, f, indent=2)\<close>\<close>

definition json_dump :: "env \<Rightarrow> state \<Rightarrow> string \<Rightarrow> json \<Rightarrow> (exn + unit) \<times> state" where
  "json_dump E s path data =
     (case write_error E path of
        Some (msg, left) \<Rightarrow> (Inl (Exception msg), s\<lparr>files := (files s)(path \<mapsto> left)\<rparr>)
      | None \<Rightarrow> (Inr (), s\<lparr>files := (files s)(path \<mapsto> Doc data)\<rparr>))"

text \<open>\<open>os.remove(path)\<close>\<close>

definition os_remove :: "env \<Rightarrow> state \<Rightarrow> string \<Rightarrow> (exn + unit) \<times> state" where
  "os_remove E s path =
     (case remove_error E path of
        Some msg \<Rightarrow> (Inl (Exception msg), s)
      | None \<Rightarrow>
          (case files s path of
             None \<Rightarrow> (Inl (Exception (''[Errno 2] No such file or directory: '' @ quote path)), s)
           | Some _ \<Rightarrow> (Inr (), s\<lparr>files := (files s)(path := None)\<rparr>)))"

text \<open>\<open>os.path.splitext\<close> (POSIX): the extension starts at the last dot of the last path
  component, unless only dots come before it there.\<close>

definition basename :: "string \<Rightarrow> string" where
  "basename p = rev (takeWhile (\<lambda>c. c \<noteq> CHR ''/'') (rev p))"

definition splitext :: "string \<Rightarrow> string \<times> string" where
  "splitext p =
     (let base = basename p;
          ext = rev (takeWhile (\<lambda>c. c \<noteq> CHR ''.'') (rev base));
          stem = take (length base - length ext - 1) base
      in if CHR ''.'' \<in> set base \<and> list_ex (\<lambda>c. c \<noteq> CHR ''.'') stem
         then (take (length p - length ext - 1) p, CHR ''.'' # ext)
         else (p, []))"

text \<open>\<open>s.strip()\<close>\<close>

definition is_space :: "char \<Rightarrow> bool" where
  "is_space c = (let n = (of_char c :: nat) in (9 \<le> n \<and> n \<le> 13) \<or> (28 \<le> n \<and> n \<le> 32))"

definition py_strip :: "string \<Rightarrow> string" where
  "py_strip s = rev (dropWhile is_space (rev (dropWhile is_space s)))"

section \<open>Provider wrapper functions\<close>

text \<open>
  Each adapter is a guard on its credential followed by \<open>try: ... except Exception\<close>.
  The body of the \<open>try\<close> is a function of its own that may raise (\<open>Inl\<close>); the adapter
  is the handler around it. Every function returns the state it leaves behind.
\<close>

text \<open>Lines 81 to 83.\<close>

definition asr_request :: "env \<Rightarrow> state \<Rightarrow> string \<Rightarrow> string \<Rightarrow> (exn + string) \<times> state" where
  "asr_request E s file_path language =
     (case open_existing E s file_path RB of
        Inl e \<Rightarrow> (Inl e, s)
      | Inr audio_file \<Rightarrow>
          (let s' = s\<lparr>net_log := net_log s @ [Transcribe ''whisper-1'' audio_file language]\<rparr>
           in (case asr_api E audio_file language of
                 AsrRaises msg \<Rightarrow> (Inl (Exception msg), s')
               | AsrResponse text \<Rightarrow> (Inr (case text of Some t \<Rightarrow> t | None \<Rightarrow> []), s'))))"

text \<open>\<open>run_asr_local\<close> (lines 77 to 85).\<close>

definition run_asr_local :: "config \<Rightarrow> env \<Rightarrow> state \<Rightarrow> string \<Rightarrow> string \<Rightarrow> (exn + string) \<times> state" where
  "run_asr_local cfg E s file_path language =
     (if OPENAI_API_KEY cfg = [] then (Inr ''[ASR not configured - set OPENAI_API_KEY]'', s)
      else (case asr_request E s file_path language of
              (Inl (Exception e), s') \<Rightarrow> (Inr (''[ASR error: '' @ e @ '']''), s')
            | (Inr text, s') \<Rightarrow> (Inr text, s')))"

text \<open>Lines 91 to 99.\<close>

definition llm_request :: "config \<Rightarrow> env \<Rightarrow> state \<Rightarrow> string \<Rightarrow> string \<Rightarrow> (exn + string) \<times> state" where
  "llm_request cfg E s transcript language =
     (let system_msg =
            (''system'',
             ''You are a helpful voice assistant for Nexgen BPO. '' @
             ''Always reply in the same language as the user. If the user language is '' @
             quote language @ '', '' @
             ''respond in that language. Keep responses concise and professional.'');
          user_msg = (''user'', ''User said (transcript): '' @ transcript);
          s' = s\<lparr>net_log := net_log s @ [ChatCompletion (OPENAI_MODEL cfg) [system_msg, user_msg] 500]\<rparr>
      in (case llm_api E (OPENAI_MODEL cfg) [system_msg, user_msg] of
            LlmRaises msg \<Rightarrow> (Inl (Exception msg), s')
          | LlmResponse choices \<Rightarrow>
              (case choices of
                 [] \<Rightarrow> (Inl (Exception ''list index out of range''), s')
               | content # _ \<Rightarrow>
                   (case content of
                      None \<Rightarrow>
                        (Inl (Exception (quote ''NoneType'' @ '' object has no attribute '' @
                                         quote ''strip'')), s')
                    | Some c \<Rightarrow> (Inr (py_strip c), s')))))"

text \<open>\<open>run_llm_local\<close> (lines 87 to 101).\<close>

definition run_llm_local :: "config \<Rightarrow> env \<Rightarrow> state \<Rightarrow> string \<Rightarrow> string \<Rightarrow> (exn + string) \<times> state" where
  "run_llm_local cfg E s transcript language =
     (if OPENAI_API_KEY cfg = [] then (Inr ''[LLM not configured - set OPENAI_API_KEY]'', s)
      else (case llm_request cfg E s transcript language of
              (Inl (Exception e), s') \<Rightarrow> (Inr (''[LLM error: '' @ e @ '']''), s')
            | (Inr text, s') \<Rightarrow> (Inr text, s')))"

text \<open>The loop of lines 116 to 118: an empty chunk is skipped.\<close>

fun write_chunks :: "env \<Rightarrow> state \<Rightarrow> string \<Rightarrow> string list \<Rightarrow> (exn + unit) \<times> state" where
  "write_chunks E s out_path [] = (Inr (), s)"
| "write_chunks E s out_path (chunk # chunks) =
     (if chunk \<noteq> [] then
        (case write_bytes E s out_path chunk of
           (Inl e, s') \<Rightarrow> (Inl e, s')
         | (Inr _, s') \<Rightarrow> write_chunks E s' out_path chunks)
      else write_chunks E s out_path chunks)"

text \<open>Lines 107 to 121.\<close>

definition tts_request :: "config \<Rightarrow> env \<Rightarrow> state \<Rightarrow> string \<Rightarrow> string \<Rightarrow> string \<Rightarrow> (exn + bool) \<times> state" where
  "tts_request cfg E s text voice out_path =
     (let url = ''https://api.elevenlabs.io/v1/text-to-speech/'' @ voice;
          headers = [(''xi-api-key'', ELEVENLABS_API_KEY cfg),
                     (''Content-Type'', ''application/json'')];
          s1 = s\<lparr>net_log := net_log s @ [TtsPost url headers text]\<rparr>
      in (case tts_api E url headers text of
            TtsRaises msg \<Rightarrow> (Inl (Exception msg), s1)
          | TtsResponse status_code chunks stream_error \<Rightarrow>
              (if status_code = 200 then
                 (case open_truncate E s1 out_path WB of
                    Inl e \<Rightarrow> (Inl e, s1)
                  | Inr s2 \<Rightarrow>
                      (case write_chunks E s2 out_path chunks of
                         (Inl e, s3) \<Rightarrow> (Inl e, s3)
                       | (Inr _, s3) \<Rightarrow>
                           (case stream_error of
                              Some msg \<Rightarrow> (Inl (Exception msg), s3)
                            | None \<Rightarrow> (Inr True, s3))))
               else (Inr False, s1))))"

text \<open>\<open>run_tts_elevenlabs\<close> (lines 103 to 123).\<close>

definition run_tts_elevenlabs :: "config \<Rightarrow> env \<Rightarrow> state \<Rightarrow> string \<Rightarrow> string \<Rightarrow> string \<Rightarrow> (exn + bool) \<times> state" where
  "run_tts_elevenlabs cfg E s text voice out_path =
     (if ELEVENLABS_API_KEY cfg = [] then (Inr False, s)
      else (case tts_request cfg E s text voice out_path of
              (Inl (Exception e), s') \<Rightarrow> (Inr False, s')
            | (Inr ok, s') \<Rightarrow> (Inr ok, s')))"

section \<open>The voice agent endpoint\<close>

text \<open>\<open>UploadFile\<close>: the name the client gave and the bytes.\<close>

record upload =
  filename :: string
  content :: string

text \<open>
  \<open>voice_agent\<close> (lines 126 to 152). \<open>u1\<close> and \<open>u2\<close> are the two values of
  \<open>uuid.uuid4().hex\<close>. Lines 127 to 130 stand outside every \<open>try\<close>: what they raise leaves
  the handler. The \<open>try: os.remove ... except: pass\<close> of lines 147 to 150 keeps the state of
  \<open>os_remove\<close> and drops its outcome. The result is the dictionary given to
  \<open>JSONResponse\<close>.
\<close>

definition voice_agent :: "config \<Rightarrow> env \<Rightarrow> state \<Rightarrow> upload \<Rightarrow> string option \<Rightarrow> string \<Rightarrow> string \<Rightarrow> (exn + json) \<times> state" where
  "voice_agent cfg E s audio language u1 u2 =
     (let suffix = (let e = snd (splitext (filename audio)) in if e \<noteq> [] then e else ''.wav'');
          tmp_name = ''/tmp/'' @ u1 @ suffix
      in (case open_truncate E s tmp_name WB of
            Inl e \<Rightarrow> (Inl e, s)
          | Inr s1 \<Rightarrow>
         (case write_bytes E s1 tmp_name (content audio) of
            (Inl e, s2) \<Rightarrow> (Inl e, s2)
          | (Inr _, s2) \<Rightarrow>
         (let lang = py_lower (case language of None \<Rightarrow> ''en'' | Some l \<Rightarrow> if l \<noteq> [] then l else ''en'')
          in (case run_asr_local cfg E s2 tmp_name lang of
                (Inl e, s3) \<Rightarrow> (Inl e, s3)
              | (Inr transcript, s3) \<Rightarrow>
         (case (if transcript \<noteq> [] \<and> \<not> startswith transcript ''[ASR error''
                   \<and> \<not> startswith transcript ''[ASR not configured''
                then run_llm_local cfg E s3 transcript lang
                else (Inr ''[LLM unavailable due to ASR error or missing config]'', s3)) of
            (Inl e, s4) \<Rightarrow> (Inl e, s4)
          | (Inr llm_response, s4) \<Rightarrow>
         (let chosen_voice = choose_voice_for_language cfg lang;
              out_filename = ''generated_'' @ u2 @ ''.mp3'';
              out_path = ''static/'' @ out_filename
          in (case run_tts_elevenlabs cfg E s4 llm_response chosen_voice out_path of
                (Inl e, s5) \<Rightarrow> (Inl e, s5)
              | (Inr tts_ok, s5) \<Rightarrow>
         (let tts_url = (if tts_ok then JStr (''/static/'' @ out_filename) else JNull);
              s6 = snd (os_remove E s5 tmp_name)
          in (Inr (JObj [(''transcript'', JStr transcript),
                         (''response_text'', JStr llm_response),
                         (''tts_audio_url'', tts_url)]), s6))))))))))"

text \<open>Reading a key of a response dictionary.\<close>

definition field :: "json \<Rightarrow> string \<Rightarrow> json option" where
  "field j k = (case j of JObj kvs \<Rightarrow> map_of kvs k | _ \<Rightarrow> None)"

section \<open>The contact endpoint\<close>

definition SUBMISSIONS_FILE :: string where
  "SUBMISSIONS_FILE = ''submissions.json''"


text \<open>\<open>type(data).__name__\<close> of a decoded value.\<close>

definition py_type_name :: "json \<Rightarrow> string" where
  "py_type_name j =
     (case j of
        JNull \<Rightarrow> ''NoneType''
      | JBool _ \<Rightarrow> ''bool''
      | JInt _ \<Rightarrow> ''int''
      | JFloat _ \<Rightarrow> ''float''
      | JStr _ \<Rightarrow> ''str''
      | JArr _ \<Rightarrow> ''list''
      | JObj _ \<Rightarrow> ''dict'')"

text \<open>\<open>data.append(entry)\<close>: only a list has the method.\<close>

definition list_append :: "json \<Rightarrow> json \<Rightarrow> exn + json" where
  "list_append data entry =
     (case data of
        JArr xs \<Rightarrow> Inr (JArr (xs @ [entry]))
      | _ \<Rightarrow> Inl (Exception (quote (py_type_name data) @ '' object has no attribute '' @
                              quote ''append'')))"

text \<open>A form field declared \<open>Form(None)\<close>.\<close>

definition opt_str :: "string option \<Rightarrow> json" where
  "opt_str x = (case x of None \<Rightarrow> JNull | Some v \<Rightarrow> JStr v)"

text \<open>Lines 158 to 163, the body of the \<open>try\<close>.\<close>

definition contact_store :: "env \<Rightarrow> state \<Rightarrow> json \<Rightarrow> (exn + json) \<times> state" where
  "contact_store E s entry =
     (case open_existing E s SUBMISSIONS_FILE RPlus of
        Inl e \<Rightarrow> (Inl e, s)
      | Inr f \<Rightarrow>
          (case json_load E f of
             Inl e \<Rightarrow> (Inl e, s)
           | Inr data \<Rightarrow>
               (case list_append data entry of
                  Inl e \<Rightarrow> (Inl e, s)
                | Inr data' \<Rightarrow>
                    (case json_dump E s SUBMISSIONS_FILE data' of
                       (Inl e, s') \<Rightarrow> (Inl e, s')
                     | (Inr _, s') \<Rightarrow>
                         (Inr (JObj [(''status'', JStr ''ok''),
                                     (''detail'', JStr ''Submission received'')]), s')))))"

datatype http_exception = HTTPException nat string

text \<open>\<open>contact_submit\<close> (lines 155 to 165).\<close>

definition contact_submit :: "env \<Rightarrow> state \<Rightarrow> string \<Rightarrow> string \<Rightarrow> string option \<Rightarrow> string option \<Rightarrow> (http_exception + json) \<times> state" where
  "contact_submit E s name email plan message =
     (let entry = JObj [(''name'', JStr name), (''email'', JStr email),
                        (''plan'', opt_str plan), (''message'', opt_str message)]
      in (case contact_store E s entry of
            (Inl (Exception e), s') \<Rightarrow> (Inl (HTTPException 500 e), s')
          | (Inr response, s') \<Rightarrow> (Inr response, s')))"

text \<open>
  The status line the web framework sends: 200 for a returned \<open>JSONResponse\<close>, the code
  of a raised \<open>HTTPException\<close>, 500 for any other exception that leaves a handler.
\<close>

definition contact_status :: "http_exception + json \<Rightarrow> nat" where
  "contact_status r = (case r of Inl (HTTPException code detail) \<Rightarrow> code | Inr _ \<Rightarrow> 200)"

definition voice_status :: "exn + json \<Rightarrow> nat" where
  "voice_status r = (case r of Inl _ \<Rightarrow> 500 | Inr _ \<Rightarrow> 200)"

section \<open>Example environments and requests\<close>

text \<open>Process environments, as \<open>os.environ.items()\<close> lists them.\<close>

definition env_empty_suffix :: "(string \<times> string) list" where
  "env_empty_suffix = [(''VOICE_'', ''Rachel'')]"

definition env_regional :: "(string \<times> string) list" where
  "env_regional = [(''VOICE_en'', ''Adam''), (''VOICE_en-us'', ''Rachel'')]"

definition env_keys :: "(string \<times> string) list" where
  "env_keys = [(''OPENAI_API_KEY'', ''sk-test''), (''ELEVENLABS_API_KEY'', ''el-test'')]"


text \<open>
  A POSIX file system refuses a file name of more than 255 bytes (\<open>ENAMETOOLONG\<close>) and
  is otherwise healthy here.
\<close>

definition posix_open_error :: "string \<Rightarrow> open_mode \<Rightarrow> string option" where
  "posix_open_error path m =
     (if 255 < length (basename path)
      then Some (''[Errno 36] File name too long: '' @ quote path)
      else None)"

text \<open>A healthy machine whose providers cannot be reached.\<close>

definition offline_env :: env where
  "offline_env =
     \<lparr> open_error = posix_open_error,
       write_error = (\<lambda>path. None),
       remove_error = (\<lambda>path. None),
       json_error = (\<lambda>t. ''Expecting value: line 1 column 1 (char 0)''),
       asr_api = (\<lambda>audio language. AsrRaises ''Connection error.''),
       llm_api = (\<lambda>model messages. LlmRaises ''Connection error.''),
       tts_api = (\<lambda>url headers payload. TtsRaises ''Connection error.'') \<rparr>"

text \<open>A healthy machine whose providers answer.\<close>

definition online_env :: env where
  "online_env =
     \<lparr> open_error = posix_open_error,
       write_error = (\<lambda>path. None),
       remove_error = (\<lambda>path. None),
       json_error = (\<lambda>t. ''Expecting value: line 1 column 1 (char 0)''),
       asr_api = (\<lambda>audio language. AsrResponse (Some ''hola'')),
       llm_api = (\<lambda>model messages. LlmResponse [Some '' buenos dias '']),
       tts_api = (\<lambda>url headers payload. TtsResponse 200 [''ID3'', [], ''xyz''] None) \<rparr>"

text \<open>The same machine with no space left on its disk.\<close>

definition disk_full_env :: env where
  "disk_full_env =
     offline_env\<lparr>write_error := (\<lambda>path. Some (''[Errno 28] No space left on device'', Blob []))\<rparr>"

definition no_files :: state where
  "no_files = \<lparr> files = Map.empty, net_log = [] \<rparr>"

definition one_clip :: state where
  "one_clip = \<lparr> files = [''/tmp/clip.ogg'' \<mapsto> Blob ''OggS''], net_log = [] \<rparr>"

definition empty_store :: state where
  "empty_store = \<lparr> files = [SUBMISSIONS_FILE \<mapsto> Doc (JArr [])], net_log = [] \<rparr>"

definition broken_store :: state where
  "broken_store = \<lparr> files = [SUBMISSIONS_FILE \<mapsto> Blob ''[{''], net_log = [] \<rparr>"

definition clip :: upload where
  "clip = \<lparr> filename = ''clip.ogg'', content = ''OggS'' \<rparr>"

text \<open>An upload whose client-chosen file name has an extension of 300 letters.\<close>

definition long_name_clip :: upload where
  "long_name_clip = \<lparr> filename = ''clip.'' @ replicate 300 (CHR ''a''), content = ''OggS'' \<rparr>"

definition hex1 :: string where
  "hex1 = ''0123456789abcdef0123456789abcdef''"

definition hex2 :: string where
  "hex2 = ''fedcba9876543210fedcba9876543210''"

section \<open>Facts about the string functions\<close>

lemma py_split_nonempty: "py_split sep s \<noteq> []"
  by (induction s) (auto split: list.splits)

lemma hd_py_split: "hd (py_split sep s) = takeWhile (\<lambda>c. c \<noteq> sep) s"
proof (induction s)
  case Nil
  show ?case by simp
next
  case (Cons c cs)
  have ne: "py_split sep cs \<noteq> []" by (rule py_split_nonempty)
  show ?case
  proof (cases "c = sep")
    case True
    then show ?thesis by simp
  next
    case False
    with Cons ne show ?thesis by (cases "py_split sep cs") auto
  qed
qed

lemma hd_py_split_append:
  assumes "sep \<notin> set xs"
  shows "hd (py_split sep (xs @ sep # ys)) = xs"
proof -
  have "takeWhile (\<lambda>c. c \<noteq> sep) (xs @ sep # ys) = xs"
    using assms by (induction xs) auto
  then show ?thesis by (simp add: hd_py_split)
qed








lemma load_voice_map_empty_suffix:
  "load_voice_map env_empty_suffix = [[] \<mapsto> ''Rachel'']"
  by (simp add: load_voice_map_def env_empty_suffix_def startswith_def py_split_max1_def)

lemma load_voice_map_regional:
  "load_voice_map env_regional = [''en'' \<mapsto> ''Adam'', ''en-us'' \<mapsto> ''Rachel'']"
  by (simp add: load_voice_map_def env_regional_def startswith_def py_split_max1_def)

section \<open>Facts about voice selection on a lower-case tag\<close>





section \<open>Facts about the adapters\<close>

lemma run_asr_local_returns: "\<exists>t s'. run_asr_local cfg E s p l = (Inr t, s')"
  by (auto simp: run_asr_local_def split: prod.splits sum.splits exn.splits)

lemma run_llm_local_returns: "\<exists>t s'. run_llm_local cfg E s tr l = (Inr t, s')"
  by (auto simp: run_llm_local_def split: prod.splits sum.splits exn.splits)

lemma run_tts_returns: "\<exists>ok s'. run_tts_elevenlabs cfg E s t v p = (Inr ok, s')"
  by (auto simp: run_tts_elevenlabs_def split: prod.splits sum.splits exn.splits)




lemma write_chunks_ok:
  assumes "write_error E p = None" and "files s p = Some (Blob b)"
  shows "\<exists>s'. write_chunks E s p chunks = (Inr (), s') \<and> files s' p = Some (Blob (b @ concat chunks))
           \<and> net_log s' = net_log s \<and> (\<forall>q. q \<noteq> p \<longrightarrow> files s' q = files s q)"
  using assms
proof (induction chunks arbitrary: s b)
  case Nil
  then show ?case by simp
next
  case (Cons c cs)
  show ?case
  proof (cases "c = []")
    case True
    with Cons show ?thesis by simp
  next
    case False
    let ?s1 = "s\<lparr>files := (files s)(p \<mapsto> Blob (b @ c))\<rparr>"
    have w: "write_bytes E s p c = (Inr (), ?s1)"
      using Cons.prems by (simp add: write_bytes_def)
    have f1: "files ?s1 p = Some (Blob (b @ c))" by simp
    from Cons.IH [OF Cons.prems(1) f1]
    obtain s' where "write_chunks E ?s1 p cs = (Inr (), s')"
      and "files s' p = Some (Blob ((b @ c) @ concat cs))"
      and "net_log s' = net_log ?s1"
      and "\<forall>q. q \<noteq> p \<longrightarrow> files s' q = files ?s1 q" by blast
    with False w show ?thesis by simp
  qed
qed

lemma write_chunks_empty:
  "concat chunks = [] \<Longrightarrow> write_chunks E s p chunks = (Inr (), s)"
  by (induction chunks) auto

lemma write_chunks_fail:
  assumes "write_error E p = Some (msg, left)" and "concat chunks \<noteq> []"
  shows "\<exists>s'. write_chunks E s p chunks = (Inl (Exception msg), s') \<and> net_log s' = net_log s"
  using assms
proof (induction chunks)
  case Nil
  then show ?case by simp
next
  case (Cons c cs)
  then show ?case by (cases "c = []") (auto simp: write_bytes_def)
qed

lemma tts_request_spec:
  assumes url: "url = ''https://api.elevenlabs.io/v1/text-to-speech/'' @ voice"
    and hs: "hs = [(''xi-api-key'', ELEVENLABS_API_KEY cfg), (''Content-Type'', ''application/json'')]"
  shows "\<exists>r s'. tts_request cfg E s speech voice p = (r, s') \<and>
           net_log s' = net_log s @ [TtsPost url hs speech] \<and>
           (r = Inr True \<longleftrightarrow>
              (\<exists>chunks. tts_api E url hs speech = TtsResponse 200 chunks None \<and>
                 open_error E p WB = None \<and> (write_error E p = None \<or> concat chunks = []))) \<and>
           (r = Inr True \<longrightarrow>
              (\<exists>chunks. tts_api E url hs speech = TtsResponse 200 chunks None \<and>
                 files s' p = Some (Blob (concat chunks))))"
proof -
  define s1 where "s1 = s\<lparr>net_log := net_log s @ [TtsPost url hs speech]\<rparr>"
  have log1: "net_log s1 = net_log s @ [TtsPost url hs speech]" by (simp add: s1_def)
  show ?thesis
  proof (cases "tts_api E url hs speech")
    case (TtsRaises msg)
    then have "tts_request cfg E s speech voice p = (Inl (Exception msg), s1)"
      by (simp add: tts_request_def Let_def url hs s1_def)
    with TtsRaises log1 show ?thesis by simp
  next
    case (TtsResponse code chunks err)
    show ?thesis
    proof (cases "code = 200")
      case False
      with TtsResponse have "tts_request cfg E s speech voice p = (Inr False, s1)"
        by (simp add: tts_request_def Let_def url hs s1_def)
      with TtsResponse False log1 show ?thesis by simp
    next
      case True
      show ?thesis
      proof (cases "open_error E p WB")
        case (Some m)
        with TtsResponse True have "tts_request cfg E s speech voice p = (Inl (Exception m), s1)"
          by (simp add: tts_request_def Let_def url hs s1_def open_truncate_def)
        with TtsResponse Some log1 show ?thesis by simp
      next
        case None
        define s2 where "s2 = s1\<lparr>files := (files s1)(p \<mapsto> Blob [])\<rparr>"
        have op: "open_truncate E s1 p WB = Inr s2"
          using None by (simp add: open_truncate_def s2_def)
        have f2: "files s2 p = Some (Blob [])" and log2: "net_log s2 = net_log s1"
          by (simp_all add: s2_def)
        have req: "tts_request cfg E s speech voice p =
          (case write_chunks E s2 p chunks of
             (Inl e, s3) \<Rightarrow> (Inl e, s3)
           | (Inr _, s3) \<Rightarrow> (case err of Some msg \<Rightarrow> (Inl (Exception msg), s3) | None \<Rightarrow> (Inr True, s3)))"
          using TtsResponse True op
          by (simp add: tts_request_def Let_def url hs s1_def)
        have good: "\<exists>s3. write_chunks E s2 p chunks = (Inr (), s3) \<and>
                      files s3 p = Some (Blob (concat chunks)) \<and> net_log s3 = net_log s2"
          if "write_error E p = None \<or> concat chunks = []"
        proof (cases "write_error E p")
          case None
          from write_chunks_ok [OF None f2, of chunks] show ?thesis by auto
        next
          case (Some a)
          with that have "concat chunks = []" by simp
          with write_chunks_empty [of chunks E s2 p] f2 show ?thesis by simp
        qed
        show ?thesis
        proof (cases "write_error E p = None \<or> concat chunks = []")
          case ok: True
          from good [OF ok] obtain s3 where w: "write_chunks E s2 p chunks = (Inr (), s3)"
            and f3: "files s3 p = Some (Blob (concat chunks))" and log3: "net_log s3 = net_log s2"
            by blast
          show ?thesis
          proof (cases err)
            case None
            with req w have "tts_request cfg E s speech voice p = (Inr True, s3)" by simp
            with TtsResponse True None \<open>open_error E p WB = None\<close> ok f3 log3 log2 log1
            show ?thesis by simp
          next
            case (Some msg)
            with req w have "tts_request cfg E s speech voice p = (Inl (Exception msg), s3)" by simp
            with TtsResponse Some log3 log2 log1 show ?thesis by simp
          qed
        next
          case bad: False
          then obtain msg left where we: "write_error E p = Some (msg, left)"
            and ne: "concat chunks \<noteq> []" by (cases "write_error E p") auto
          from write_chunks_fail [OF we ne, of s2] obtain s3
            where w: "write_chunks E s2 p chunks = (Inl (Exception msg), s3)"
              and log3: "net_log s3 = net_log s2" by blast
          with req have "tts_request cfg E s speech voice p = (Inl (Exception msg), s3)" by simp
          with TtsResponse bad log3 log2 log1 show ?thesis by simp
        qed
      qed
    qed
  qed
qed

lemma run_tts_spec:
  assumes url: "url = ''https://api.elevenlabs.io/v1/text-to-speech/'' @ voice"
    and hs: "hs = [(''xi-api-key'', ELEVENLABS_API_KEY cfg), (''Content-Type'', ''application/json'')]"
  shows "\<exists>ok s'. run_tts_elevenlabs cfg E s speech voice p = (Inr ok, s') \<and>
           (ok \<longleftrightarrow>
              ELEVENLABS_API_KEY cfg \<noteq> [] \<and>
              (\<exists>chunks. tts_api E url hs speech = TtsResponse 200 chunks None \<and>
                 open_error E p WB = None \<and> (write_error E p = None \<or> concat chunks = []))) \<and>
           (ok \<longrightarrow>
              (\<exists>chunks. tts_api E url hs speech = TtsResponse 200 chunks None \<and>
                 files s' p = Some (Blob (concat chunks)))) \<and>
           net_log s' = (if ELEVENLABS_API_KEY cfg = [] then net_log s
                         else net_log s @ [TtsPost url hs speech])"
proof (cases "ELEVENLABS_API_KEY cfg = []")
  case True
  then show ?thesis by (auto simp: run_tts_elevenlabs_def)
next
  case False
  from tts_request_spec [OF url hs, of E s speech p] obtain r s'
    where req: "tts_request cfg E s speech voice p = (r, s')"
      and log: "net_log s' = net_log s @ [TtsPost url hs speech]"
      and iff: "r = Inr True \<longleftrightarrow>
              (\<exists>chunks. tts_api E url hs speech = TtsResponse 200 chunks None \<and>
                 open_error E p WB = None \<and> (write_error E p = None \<or> concat chunks = []))"
      and wr: "r = Inr True \<longrightarrow>
              (\<exists>chunks. tts_api E url hs speech = TtsResponse 200 chunks None \<and>
                 files s' p = Some (Blob (concat chunks)))"
    by blast
  show ?thesis
  proof (cases r)
    case (Inl e)
    obtain m where e: "e = Exception m" by (cases e)
    from Inl e req False have "run_tts_elevenlabs cfg E s speech voice p = (Inr False, s')"
      by (simp add: run_tts_elevenlabs_def)
    moreover from Inl iff have "\<not> (\<exists>chunks. tts_api E url hs speech = TtsResponse 200 chunks None \<and>
                 open_error E p WB = None \<and> (write_error E p = None \<or> concat chunks = []))"
      by simp
    ultimately show ?thesis using log False by (intro exI [of _ False] exI [of _ s']) simp
  next
    case (Inr ok)
    with req False have "run_tts_elevenlabs cfg E s speech voice p = (Inr ok, s')"
      by (simp add: run_tts_elevenlabs_def)
    with Inr iff wr log False show ?thesis by (intro exI [of _ ok] exI [of _ s']) simp
  qed
qed

lemma run_tts_state_independent:
  "fst (run_tts_elevenlabs cfg E s speech voice p) = fst (run_tts_elevenlabs cfg E t speech voice p)"
proof -
  let ?good = "ELEVENLABS_API_KEY cfg \<noteq> [] \<and>
     (\<exists>chunks. tts_api E (''https://api.elevenlabs.io/v1/text-to-speech/'' @ voice)
         [(''xi-api-key'', ELEVENLABS_API_KEY cfg), (''Content-Type'', ''application/json'')] speech
           = TtsResponse 200 chunks None \<and>
        open_error E p WB = None \<and> (write_error E p = None \<or> concat chunks = []))"
  from run_tts_spec [OF refl refl, of cfg E s speech voice p]
  obtain ok1 s1 where a: "run_tts_elevenlabs cfg E s speech voice p = (Inr ok1, s1)"
    and a': "ok1 \<longleftrightarrow> ?good" by blast
  from run_tts_spec [OF refl refl, of cfg E t speech voice p]
  obtain ok2 s2 where b: "run_tts_elevenlabs cfg E t speech voice p = (Inr ok2, s2)"
    and b': "ok2 \<longleftrightarrow> ?good" by blast
  from a' b' have "ok1 = ok2" by blast
  with a b show ?thesis by simp
qed

section \<open>Facts about the voice agent endpoint\<close>

lemma os_remove_net_log: "net_log (snd (os_remove E s p)) = net_log s"
  by (simp add: os_remove_def split: option.splits)

lemma upload_written:
  assumes "open_error E tmp WB = None" and "write_error E tmp = None"
  shows "open_truncate E s tmp WB = Inr (s\<lparr>files := (files s)(tmp \<mapsto> Blob [])\<rparr>) \<and>
         write_bytes E (s\<lparr>files := (files s)(tmp \<mapsto> Blob [])\<rparr>) tmp bytes =
           (Inr (), s\<lparr>files := (files s)(tmp \<mapsto> Blob bytes)\<rparr>)"
  using assms by (simp add: open_truncate_def write_bytes_def)

lemma voice_agent_after_upload:
  assumes tmp: "tmp = ''/tmp/'' @ u1 @
                  (let e = snd (splitext (filename audio)) in if e \<noteq> [] then e else ''.wav'')"
    and lang: "lang = py_lower (case language of None \<Rightarrow> ''en''
                                 | Some l \<Rightarrow> if l \<noteq> [] then l else ''en'')"
    and s2: "s2 = s\<lparr>files := (files s)(tmp \<mapsto> Blob (content audio))\<rparr>"
    and op: "open_error E tmp WB = None" and wr: "write_error E tmp = None"
  shows "\<exists>transcript s3 reply s4 ok s5.
      run_asr_local cfg E s2 tmp lang = (Inr transcript, s3) \<and>
      (if transcript \<noteq> [] \<and> \<not> startswith transcript ''[ASR error''
            \<and> \<not> startswith transcript ''[ASR not configured''
       then run_llm_local cfg E s3 transcript lang
       else (Inr ''[LLM unavailable due to ASR error or missing config]'', s3)) = (Inr reply, s4) \<and>
      run_tts_elevenlabs cfg E s4 reply (choose_voice_for_language cfg lang)
         (''static/'' @ ''generated_'' @ u2 @ ''.mp3'') = (Inr ok, s5) \<and>
      voice_agent cfg E s audio language u1 u2 =
        (Inr (JObj [(''transcript'', JStr transcript),
                    (''response_text'', JStr reply),
                    (''tts_audio_url'',
                       if ok then JStr (''/static/'' @ ''generated_'' @ u2 @ ''.mp3'') else JNull)]),
         snd (os_remove E s5 tmp))"
proof -
  obtain transcript s3 where asr: "run_asr_local cfg E s2 tmp lang = (Inr transcript, s3)"
    using run_asr_local_returns by blast
  let ?llm = "if transcript \<noteq> [] \<and> \<not> startswith transcript ''[ASR error''
            \<and> \<not> startswith transcript ''[ASR not configured''
       then run_llm_local cfg E s3 transcript lang
       else (Inr ''[LLM unavailable due to ASR error or missing config]'', s3)"
  obtain reply s4 where llm: "?llm = (Inr reply, s4)"
    using run_llm_local_returns [of cfg E s3 transcript lang]
    by (cases "transcript \<noteq> [] \<and> \<not> startswith transcript ''[ASR error''
            \<and> \<not> startswith transcript ''[ASR not configured''") auto
  obtain ok s5 where tts: "run_tts_elevenlabs cfg E s4 reply (choose_voice_for_language cfg lang)
         (''static/'' @ ''generated_'' @ u2 @ ''.mp3'') = (Inr ok, s5)"
    using run_tts_returns by blast
  have up: "open_truncate E s tmp WB = Inr (s\<lparr>files := (files s)(tmp \<mapsto> Blob [])\<rparr>)"
    "write_bytes E (s\<lparr>files := (files s)(tmp \<mapsto> Blob [])\<rparr>) tmp (content audio) = (Inr (), s2)"
    using upload_written [OF op wr] by (simp_all add: s2)
  have "voice_agent cfg E s audio language u1 u2 =
        (Inr (JObj [(''transcript'', JStr transcript),
                    (''response_text'', JStr reply),
                    (''tts_audio_url'',
                       if ok then JStr (''/static/'' @ ''generated_'' @ u2 @ ''.mp3'') else JNull)]),
         snd (os_remove E s5 tmp))"
    unfolding voice_agent_def Let_def tmp [unfolded Let_def, symmetric] lang [symmetric]
    using up asr llm tts by simp
  with asr llm tts show ?thesis by blast
qed

lemma voice_agent_upload_fails:
  assumes tmp: "tmp = ''/tmp/'' @ u1 @
                  (let e = snd (splitext (filename audio)) in if e \<noteq> [] then e else ''.wav'')"
  shows "(open_error E tmp WB = Some m \<longrightarrow>
            voice_agent cfg E s audio language u1 u2 = (Inl (Exception m), s)) \<and>
         (open_error E tmp WB = None \<and> write_error E tmp = Some (m, left) \<longrightarrow>
            fst (voice_agent cfg E s audio language u1 u2) = Inl (Exception m))"
  unfolding voice_agent_def Let_def tmp [unfolded Let_def, symmetric]
  by (simp add: open_truncate_def write_bytes_def)

lemma voice_agent_returns_upload:
  assumes tmp: "tmp = ''/tmp/'' @ u1 @
                  (let e = snd (splitext (filename audio)) in if e \<noteq> [] then e else ''.wav'')"
    and ret: "fst (voice_agent cfg E s audio language u1 u2) = Inr r"
  shows "open_error E tmp WB = None \<and> write_error E tmp = None"
proof (cases "open_error E tmp WB")
  case (Some m)
  with voice_agent_upload_fails [OF tmp, of E m cfg s language u2] ret show ?thesis by simp
next
  case None
  show ?thesis
  proof (cases "write_error E tmp")
    case w: None
    with None show ?thesis by simp
  next
    case (Some ml)
    obtain m left where "ml = (m, left)" by (cases ml)
    with Some None voice_agent_upload_fails [OF tmp, of E m cfg s language u2 left] ret
    show ?thesis by simp
  qed
qed


section \<open>Facts about the contact endpoint\<close>


lemma contact_submit_open_fails:
  "open_existing E s SUBMISSIONS_FILE RPlus = Inl (Exception msg) \<Longrightarrow>
   contact_submit E s name email plan message = (Inl (HTTPException 500 msg), s)"
  by (simp add: contact_submit_def contact_store_def)

lemma contact_submit_parse_fails:
  "open_existing E s SUBMISSIONS_FILE RPlus = Inr c \<Longrightarrow> json_load E c = Inl (Exception msg) \<Longrightarrow>
   contact_submit E s name email plan message = (Inl (HTTPException 500 msg), s)"
  by (simp add: contact_submit_def contact_store_def)

lemma contact_submit_write_fails:
  "open_existing E s SUBMISSIONS_FILE RPlus = Inr (Doc (JArr xs)) \<Longrightarrow>
   write_error E SUBMISSIONS_FILE = Some (msg, left) \<Longrightarrow>
   contact_submit E s name email plan message =
     (Inl (HTTPException 500 msg), s\<lparr>files := (files s)(SUBMISSIONS_FILE \<mapsto> left)\<rparr>)"
  by (simp add: contact_submit_def contact_store_def json_load_def list_append_def json_dump_def)

lemma contact_submit_ok:
  "open_existing E s SUBMISSIONS_FILE RPlus = Inr (Doc (JArr xs)) \<Longrightarrow>
   write_error E SUBMISSIONS_FILE = None \<Longrightarrow>
   contact_submit E s name email plan message =
     (Inr (JObj [(''status'', JStr ''ok''), (''detail'', JStr ''Submission received'')]),
      s\<lparr>files := (files s)(SUBMISSIONS_FILE \<mapsto>
           Doc (JArr (xs @ [JObj [(''name'', JStr name), (''email'', JStr email),
                                  (''plan'', opt_str plan), (''message'', opt_str message)]])))\<rparr>)"
  by (simp add: contact_submit_def contact_store_def json_load_def list_append_def json_dump_def)

lemma contact_submit_total:
  "(\<exists>s'. contact_submit E s name email plan message =
      (Inr (JObj [(''status'', JStr ''ok''), (''detail'', JStr ''Submission received'')]), s')) \<or>
   (\<exists>msg s'. contact_submit E s name email plan message = (Inl (HTTPException 500 msg), s'))"
  by (auto simp: contact_submit_def contact_store_def split: sum.splits prod.splits exn.splits)



section \<open>The voice agent without transcription credentials\<close>

text \<open>
  C1, as stated, fails for a request the handler cannot store. The upload's file name ends
  in an extension of 300 letters; line 128 appends it to the name of the temporary file,
  \<open>open\<close> at line 129 raises \<open>OSError\<close> (file name too long) outside every \<open>try\<close>, and the
  handler returns no result at all, whatever the credentials.
\<close>

theorem asr_unconfigured_upload_fails_counterexample:
  "OPENAI_API_KEY (load_config []) = [] \<and>
   fst (voice_agent (load_config []) offline_env no_files long_name_clip None hex1 hex2) =
     Inl (Exception (''[Errno 36] File name too long: '' @
            quote (''/tmp/'' @ hex1 @ ''.'' @ replicate 300 (CHR ''a''))))"
  by code_simp

text \<open>
  C1, amended: if the transcription credentials are absent and the uploaded audio has
  been written to its temporary file (lines 129 and 130 raise nothing), the handler
  returns a result whose transcript is the "ASR not configured" sentinel and whose
  response text is the "LLM unavailable" sentinel. The language model is not called: the
  only request the handler may send is the one to the speech synthesis provider.
\<close>

theorem asr_unconfigured_result:
  assumes key: "OPENAI_API_KEY cfg = []"
    and tmp: "tmp = ''/tmp/'' @ u1 @
                  (let e = snd (splitext (filename audio)) in if e \<noteq> [] then e else ''.wav'')"
    and op: "open_error E tmp WB = None" and wr: "write_error E tmp = None"
  shows "\<exists>r s'. voice_agent cfg E s audio language u1 u2 = (Inr r, s') \<and>
           field r ''transcript'' = Some (JStr ''[ASR not configured - set OPENAI_API_KEY]'') \<and>
           field r ''response_text'' =
             Some (JStr ''[LLM unavailable due to ASR error or missing config]'') \<and>
           (net_log s' = net_log s \<or>
            (\<exists>url hs. net_log s' = net_log s @
               [TtsPost url hs ''[LLM unavailable due to ASR error or missing config]'']))"
proof -
  define lang where "lang = py_lower (case language of None \<Rightarrow> ''en''
                                 | Some l \<Rightarrow> if l \<noteq> [] then l else ''en'')"
  define s2 where "s2 = s\<lparr>files := (files s)(tmp \<mapsto> Blob (content audio))\<rparr>"
  from voice_agent_after_upload [OF tmp lang_def s2_def op wr, of cfg u2]
  obtain transcript s3 reply s4 ok s5 where
    asr: "run_asr_local cfg E s2 tmp lang = (Inr transcript, s3)" and
    llm: "(if transcript \<noteq> [] \<and> \<not> startswith transcript ''[ASR error''
            \<and> \<not> startswith transcript ''[ASR not configured''
       then run_llm_local cfg E s3 transcript lang
       else (Inr ''[LLM unavailable due to ASR error or missing config]'', s3)) = (Inr reply, s4)" and
    tts: "run_tts_elevenlabs cfg E s4 reply (choose_voice_for_language cfg lang)
         (''static/'' @ ''generated_'' @ u2 @ ''.mp3'') = (Inr ok, s5)" and
    va: "voice_agent cfg E s audio language u1 u2 =
        (Inr (JObj [(''transcript'', JStr transcript),
                    (''response_text'', JStr reply),
                    (''tts_audio_url'',
                       if ok then JStr (''/static/'' @ ''generated_'' @ u2 @ ''.mp3'') else JNull)]),
         snd (os_remove E s5 tmp))"
    by blast
  from asr key have t: "transcript = ''[ASR not configured - set OPENAI_API_KEY]''" and s3: "s3 = s2"
    by (simp_all add: run_asr_local_def)
  have "startswith ''[ASR not configured - set OPENAI_API_KEY]'' ''[ASR not configured''"
    by (simp add: startswith_def)
  with llm t have r: "reply = ''[LLM unavailable due to ASR error or missing config]''" and s4: "s4 = s3"
    by simp_all
  from run_tts_spec [OF refl refl, of cfg E s4 reply "choose_voice_for_language cfg lang"
      "''static/'' @ ''generated_'' @ u2 @ ''.mp3''"] tts
  have "net_log s5 = net_log s4 \<or> (\<exists>url hs. net_log s5 = net_log s4 @ [TtsPost url hs reply])"
    by (cases "ELEVENLABS_API_KEY cfg = []") auto
  moreover have "net_log s4 = net_log s" by (simp add: s4 s3 s2_def)
  ultimately have "net_log (snd (os_remove E s5 tmp)) = net_log s \<or>
      (\<exists>url hs. net_log (snd (os_remove E s5 tmp)) = net_log s @ [TtsPost url hs reply])"
    by (simp add: os_remove_net_log)
  with va t r show ?thesis by (simp add: field_def)
qed

theorem asr_unconfigured_result_witness:
  "\<exists>r s'. voice_agent (load_config []) offline_env no_files clip None hex1 hex2 = (Inr r, s') \<and>
           field r ''transcript'' = Some (JStr ''[ASR not configured - set OPENAI_API_KEY]'') \<and>
           field r ''response_text'' =
             Some (JStr ''[LLM unavailable due to ASR error or missing config]'') \<and>
           (net_log s' = net_log no_files \<or>
            (\<exists>url hs. net_log s' = net_log no_files @
               [TtsPost url hs ''[LLM unavailable due to ASR error or missing config]'']))"
proof -
  let ?tmp = "''/tmp/'' @ hex1 @
                  (let e = snd (splitext (filename clip)) in if e \<noteq> [] then e else ''.wav'')"
  have key: "OPENAI_API_KEY (load_config []) = []" by code_simp
  have op: "open_error offline_env ?tmp WB = None" by code_simp
  have wr: "write_error offline_env ?tmp = None" by code_simp
  from asr_unconfigured_result [OF key refl op wr] show ?thesis .
qed

section \<open>The contact store on the success path\<close>



section \<open>Voice selection: exact match, prefix match, default\<close>

text \<open>
  C3, as stated, fails for the empty tag. Started with the variable \<open>VOICE_=Rachel\<close> the
  loader stores the key \<open>""\<close>; the empty tag matches that key exactly, and line 66 returns
  the default voice before the map is consulted.
\<close>

theorem exact_match_empty_tag_counterexample:
  "VOICE_MAP (load_config env_empty_suffix) [] = Some ''Rachel'' \<and>
   choose_voice_for_language (load_config env_empty_suffix) [] = ''Bella''"
proof -
  have m: "VOICE_MAP (load_config env_empty_suffix) [] = Some ''Rachel''"
    by (simp add: load_config_def load_voice_map_empty_suffix)
  have d: "ELEVENLABS_VOICE_DEFAULT (load_config env_empty_suffix) = ''Bella''"
    by (simp add: load_config_def getenv_def env_empty_suffix_def)
  from m d show ?thesis by (simp add: choose_voice_for_language_def)
qed

text \<open>
  C3, amended: for every non-empty language tag that is a key of the voice map, voice
  selection returns the value stored under that key, whatever the map holds for the prefix
  before a separator.
\<close>

theorem exact_match_priority:
  "lang \<noteq> [] \<Longrightarrow> VOICE_MAP cfg lang = Some v \<Longrightarrow> choose_voice_for_language cfg lang = v"
  by (simp add: choose_voice_for_language_def)

text \<open>The tag \<open>en-us\<close> with both \<open>en\<close> and \<open>en-us\<close> in the map: the exact entry wins.\<close>

theorem exact_match_priority_witness:
  "''en-us'' \<noteq> [] \<and> VOICE_MAP (load_config env_regional) ''en-us'' = Some ''Rachel'' \<and>
   VOICE_MAP (load_config env_regional) (hd (py_split (CHR ''-'') ''en-us'')) = Some ''Adam'' \<and>
   choose_voice_for_language (load_config env_regional) ''en-us'' = ''Rachel''"
proof -
  have m: "VOICE_MAP (load_config env_regional) ''en-us'' = Some ''Rachel''"
    by (simp add: load_config_def load_voice_map_regional)
  have ne: "''en-us'' \<noteq> []" by simp
  have p: "VOICE_MAP (load_config env_regional) (hd (py_split (CHR ''-'') ''en-us'')) = Some ''Adam''"
    by (simp add: load_config_def load_voice_map_regional)
  from exact_match_priority [OF ne m] m p show ?thesis by simp
qed

text \<open>
  C4, as stated, fails when the whole tag is a key as well: with \<open>en\<close> and \<open>en-us\<close> both in
  the map, the tag \<open>en-us\<close> gets the voice of \<open>en-us\<close>, not the voice of \<open>en\<close>.
\<close>

theorem prefix_match_shadowed_counterexample:
  "VOICE_MAP (load_config env_regional) ''en'' = Some ''Adam'' \<and>
   choose_voice_for_language (load_config env_regional) ''en-us'' = ''Rachel''"
proof -
  have m: "VOICE_MAP (load_config env_regional) = [''en'' \<mapsto> ''Adam'', ''en-us'' \<mapsto> ''Rachel'']"
    by (simp add: load_config_def load_voice_map_regional)
  show ?thesis by (simp add: choose_voice_for_language_def m)
qed

text \<open>
  C4, amended: for every tag \<open>xx-YY\<close>, where \<open>xx\<close> holds no separator and is a key of the
  voice map and the whole tag is not a key, voice selection returns the voice stored
  under \<open>xx\<close>.
\<close>

theorem prefix_match:
  "CHR ''-'' \<notin> set xx \<Longrightarrow> VOICE_MAP cfg xx = Some v \<Longrightarrow>
   VOICE_MAP cfg (xx @ ''-'' @ yy) = None \<Longrightarrow>
   choose_voice_for_language cfg (xx @ ''-'' @ yy) = v"
  using hd_py_split_append [of "CHR ''-''" xx yy]
  by (simp add: choose_voice_for_language_def)

theorem prefix_match_witness:
  "choose_voice_for_language (load_config env_regional) ''en-gb'' = ''Adam''"
proof -
  have a: "CHR ''-'' \<notin> set ''en''" by simp
  have b: "VOICE_MAP (load_config env_regional) ''en'' = Some ''Adam''"
    by (simp add: load_config_def load_voice_map_regional)
  have c: "VOICE_MAP (load_config env_regional) (''en'' @ ''-'' @ ''gb'') = None"
    by (simp add: load_config_def load_voice_map_regional)
  from prefix_match [OF a b c] show ?thesis by simp
qed

text \<open>
  C5: voice selection returns the default voice when the tag is empty, when the tag is
  not a key and holds no separator, and when neither the tag nor the part of it before
  the first separator is a key.
\<close>

theorem fallback_default:
  "choose_voice_for_language cfg [] = ELEVENLABS_VOICE_DEFAULT cfg \<and>
   (VOICE_MAP cfg lang = None \<and> CHR ''-'' \<notin> set lang \<longrightarrow>
      choose_voice_for_language cfg lang = ELEVENLABS_VOICE_DEFAULT cfg) \<and>
   (VOICE_MAP cfg lang = None \<and> VOICE_MAP cfg (takeWhile (\<lambda>c. c \<noteq> CHR ''-'') lang) = None \<longrightarrow>
      choose_voice_for_language cfg lang = ELEVENLABS_VOICE_DEFAULT cfg)"
  by (simp add: choose_voice_for_language_def hd_py_split)

theorem fallback_default_witness:
  "choose_voice_for_language (load_config env_regional) [] = ''Bella'' \<and>
   choose_voice_for_language (load_config env_regional) ''fr'' = ''Bella'' \<and>
   choose_voice_for_language (load_config env_regional) ''fr-ca'' = ''Bella''"
proof -
  have d: "ELEVENLABS_VOICE_DEFAULT (load_config env_regional) = ''Bella''"
    by (simp add: load_config_def getenv_def env_regional_def)
  have a: "VOICE_MAP (load_config env_regional) ''fr'' = None \<and> CHR ''-'' \<notin> set ''fr''"
    by (simp add: load_config_def load_voice_map_regional)
  have b: "VOICE_MAP (load_config env_regional) ''fr-ca'' = None \<and>
           VOICE_MAP (load_config env_regional) (takeWhile (\<lambda>c. c \<noteq> CHR ''-'') ''fr-ca'') = None"
    by (simp add: load_config_def load_voice_map_regional)
  from fallback_default [of "load_config env_regional" "''fr''"]
       fallback_default [of "load_config env_regional" "''fr-ca''"] a b d
  show ?thesis by simp
qed

section \<open>The adapters never raise\<close>



section \<open>The URL of the synthesised audio\<close>

text \<open>
  C7: without the speech synthesis credential the adapter returns false and leaves the
  state as it found it, the log of network requests included. In every result the handler
  returns, \<open>tts_audio_url\<close> is \<open>/static/\<close> followed by the generated file name when the
  adapter, called on the response text, the chosen voice and the output path, returns
  true, and null when it returns false; so it is null whenever the credential is absent.
  The adapter's answer does not depend on the state it is called in, hence \<open>q\<close> is any state.
\<close>

theorem tts_url_follows_adapter:
  "(ELEVENLABS_API_KEY cfg = [] \<longrightarrow> run_tts_elevenlabs cfg E q speech voice p = (Inr False, q)) \<and>
   (voice_agent cfg E s audio language u1 u2 = (Inr r, s') \<longrightarrow>
      (\<exists>reply. field r ''response_text'' = Some (JStr reply) \<and>
         field r ''tts_audio_url'' =
           Some (if fst (run_tts_elevenlabs cfg E q reply
                      (choose_voice_for_language cfg
                         (py_lower (case language of None \<Rightarrow> ''en''
                                    | Some l \<Rightarrow> if l \<noteq> [] then l else ''en'')))
                      (''static/'' @ ''generated_'' @ u2 @ ''.mp3'')) = Inr True
                 then JStr (''/static/'' @ ''generated_'' @ u2 @ ''.mp3'')
                 else JNull)) \<and>
      (ELEVENLABS_API_KEY cfg = [] \<longrightarrow> field r ''tts_audio_url'' = Some JNull))"
proof -
  define lang where "lang = py_lower (case language of None \<Rightarrow> ''en''
                                 | Some l \<Rightarrow> if l \<noteq> [] then l else ''en'')"
  define tmp where "tmp = ''/tmp/'' @ u1 @
                  (let e = snd (splitext (filename audio)) in if e \<noteq> [] then e else ''.wav'')"
  define s2 where "s2 = s\<lparr>files := (files s)(tmp \<mapsto> Blob (content audio))\<rparr>"
  have a: "ELEVENLABS_API_KEY cfg = [] \<longrightarrow> run_tts_elevenlabs cfg E q speech voice p = (Inr False, q)"
    by (simp add: run_tts_elevenlabs_def)
  have b: "(\<exists>reply. field r ''response_text'' = Some (JStr reply) \<and>
         field r ''tts_audio_url'' =
           Some (if fst (run_tts_elevenlabs cfg E q reply (choose_voice_for_language cfg lang)
                      (''static/'' @ ''generated_'' @ u2 @ ''.mp3'')) = Inr True
                 then JStr (''/static/'' @ ''generated_'' @ u2 @ ''.mp3'')
                 else JNull)) \<and>
      (ELEVENLABS_API_KEY cfg = [] \<longrightarrow> field r ''tts_audio_url'' = Some JNull)"
    if ret: "voice_agent cfg E s audio language u1 u2 = (Inr r, s')"
  proof -
    from ret have "fst (voice_agent cfg E s audio language u1 u2) = Inr r" by simp
    from voice_agent_returns_upload [OF tmp_def this]
    have op: "open_error E tmp WB = None" and wr: "write_error E tmp = None" by simp_all
    from voice_agent_after_upload [OF tmp_def lang_def s2_def op wr, of cfg u2]
    obtain transcript reply s4 ok s5 where
      tts: "run_tts_elevenlabs cfg E s4 reply (choose_voice_for_language cfg lang)
         (''static/'' @ ''generated_'' @ u2 @ ''.mp3'') = (Inr ok, s5)" and
      va: "voice_agent cfg E s audio language u1 u2 =
        (Inr (JObj [(''transcript'', JStr transcript),
                    (''response_text'', JStr reply),
                    (''tts_audio_url'',
                       if ok then JStr (''/static/'' @ ''generated_'' @ u2 @ ''.mp3'') else JNull)]),
         snd (os_remove E s5 tmp))"
      by blast
    from tts have "fst (run_tts_elevenlabs cfg E s4 reply (choose_voice_for_language cfg lang)
         (''static/'' @ ''generated_'' @ u2 @ ''.mp3'')) = Inr ok" by simp
    then have q: "fst (run_tts_elevenlabs cfg E q reply (choose_voice_for_language cfg lang)
         (''static/'' @ ''generated_'' @ u2 @ ''.mp3'')) = Inr ok"
      by (simp only: run_tts_state_independent [of cfg E q _ _ _ s4])
    have "ELEVENLABS_API_KEY cfg = [] \<longrightarrow> \<not> ok"
      using tts by (auto simp: run_tts_elevenlabs_def)
    with va ret q show ?thesis by (auto simp: field_def)
  qed
  from a b show ?thesis unfolding lang_def by blast
qed

theorem tts_url_follows_adapter_witness:
  "run_tts_elevenlabs (load_config []) online_env one_clip ''hola'' ''Bella'' ''static/out.mp3'' =
     (Inr False, one_clip) \<and>
   (\<exists>r. fst (voice_agent (load_config env_keys) online_env no_files clip None hex1 hex2) = Inr r \<and>
        field r ''tts_audio_url'' = Some (JStr (''/static/'' @ ''generated_'' @ hex2 @ ''.mp3''))) \<and>
   (\<exists>r. fst (voice_agent (load_config []) online_env no_files clip None hex1 hex2) = Inr r \<and>
        field r ''tts_audio_url'' = Some JNull)"
proof -
  let ?tmp = "''/tmp/'' @ hex1 @
                  (let e = snd (splitext (filename clip)) in if e \<noteq> [] then e else ''.wav'')"
  let ?lang = "py_lower (case None of None \<Rightarrow> ''en'' | Some l \<Rightarrow> if l \<noteq> [] then l else ''en'')"
  have op: "open_error online_env ?tmp WB = None" and wr: "write_error online_env ?tmp = None"
    by code_simp+
  have nokey: "ELEVENLABS_API_KEY (load_config []) = []" by code_simp
  have key: "ELEVENLABS_API_KEY (load_config env_keys) \<noteq> []" by code_simp
  from tts_url_follows_adapter [where cfg = "load_config []" and E = online_env and q = one_clip
      and speech = "''hola''" and voice = "''Bella''" and p = "''static/out.mp3''"] nokey
  have 1: "run_tts_elevenlabs (load_config []) online_env one_clip ''hola'' ''Bella'' ''static/out.mp3'' =
     (Inr False, one_clip)"
    by blast
  have good: "fst (run_tts_elevenlabs (load_config env_keys) online_env no_files reply voice
              (''static/'' @ ''generated_'' @ hex2 @ ''.mp3'')) = Inr True" for reply voice
  proof -
    from run_tts_spec [OF refl refl, of "load_config env_keys" online_env no_files reply voice
        "''static/'' @ ''generated_'' @ hex2 @ ''.mp3''"]
    obtain ok t where r: "run_tts_elevenlabs (load_config env_keys) online_env no_files reply voice
              (''static/'' @ ''generated_'' @ hex2 @ ''.mp3'') = (Inr ok, t)"
      and i: "ok \<longleftrightarrow> ELEVENLABS_API_KEY (load_config env_keys) \<noteq> [] \<and>
         (\<exists>chunks. tts_api online_env (''https://api.elevenlabs.io/v1/text-to-speech/'' @ voice)
              [(''xi-api-key'', ELEVENLABS_API_KEY (load_config env_keys)),
               (''Content-Type'', ''application/json'')] reply
              = TtsResponse 200 chunks None \<and>
            open_error online_env (''static/'' @ ''generated_'' @ hex2 @ ''.mp3'') WB = None \<and>
            (write_error online_env (''static/'' @ ''generated_'' @ hex2 @ ''.mp3'') = None
             \<or> concat chunks = []))"
      by blast
    have "open_error online_env (''static/'' @ ''generated_'' @ hex2 @ ''.mp3'') WB = None"
      by code_simp
    then have ok unfolding i using key by (simp add: online_env_def)
    with r show ?thesis by simp
  qed
  from voice_agent_after_upload [OF refl refl refl op wr, where cfg = "load_config env_keys"
      and language = None and s = no_files and ?u2.0 = hex2]
  obtain r2 s2 where ret2: "voice_agent (load_config env_keys) online_env no_files clip None hex1 hex2
      = (Inr r2, s2)"
    by blast
  from tts_url_follows_adapter [where cfg = "load_config env_keys" and E = online_env
      and s = no_files and audio = clip and language = None and ?u1.0 = hex1 and ?u2.0 = hex2
      and r = r2 and s' = s2 and q = no_files] ret2 good
  have "field r2 ''tts_audio_url'' = Some (JStr (''/static/'' @ ''generated_'' @ hex2 @ ''.mp3''))"
    by auto
  with ret2 have 2: "\<exists>r. fst (voice_agent (load_config env_keys) online_env no_files clip None hex1 hex2) = Inr r \<and>
        field r ''tts_audio_url'' = Some (JStr (''/static/'' @ ''generated_'' @ hex2 @ ''.mp3''))"
    by simp
  from voice_agent_after_upload [OF refl refl refl op wr, where cfg = "load_config []"
      and language = None and s = no_files and ?u2.0 = hex2]
  obtain r3 s3 where ret3: "voice_agent (load_config []) online_env no_files clip None hex1 hex2
      = (Inr r3, s3)"
    by blast
  from tts_url_follows_adapter [where cfg = "load_config []" and E = online_env
      and s = no_files and audio = clip and language = None and ?u1.0 = hex1 and ?u2.0 = hex2
      and r = r3 and s' = s3] ret3 nokey
  have "field r3 ''tts_audio_url'' = Some JNull"
    by blast
  with ret3 have 3: "\<exists>r. fst (voice_agent (load_config []) online_env no_files clip None hex1 hex2) = Inr r \<and>
        field r ''tts_audio_url'' = Some JNull"
    by simp
  from 1 2 3 show ?thesis by (intro conjI)
qed

section \<open>Which failures reach the caller\<close>

text \<open>
  C8, as stated, fails in its last part: the voice agent endpoint can answer with a status
  other than 200 as well. The request whose file name has an extension of 300 letters makes
  \<open>open\<close> raise at line 129, outside every \<open>try\<close>, and the framework answers 500.
\<close>

theorem voice_agent_non_200_counterexample:
  "voice_status (fst (voice_agent (load_config []) offline_env no_files long_name_clip None hex1 hex2)) = 500"
  by code_simp

text \<open>
  C8, amended: when opening, decoding or rewriting the contact file fails,
  \<open>contact_submit\<close> raises \<open>HTTPException\<close> with status 500 and the failure's message as
  detail; when all three succeed it returns the "ok" response with status 200; it answers
  200 or 500 and nothing else. The voice agent endpoint answers 200 whenever the uploaded
  audio has been written to its temporary file: no failure of a provider, of a missing
  credential or of the clean-up changes the status.
\<close>

theorem contact_submit_server_error:
  assumes tmp: "tmp = ''/tmp/'' @ u1 @
                  (let e = snd (splitext (filename audio)) in if e \<noteq> [] then e else ''.wav'')"
  shows
  "(open_existing E s SUBMISSIONS_FILE RPlus = Inl (Exception msg) \<longrightarrow>
      fst (contact_submit E s name email plan message) = Inl (HTTPException 500 msg)) \<and>
   (open_existing E s SUBMISSIONS_FILE RPlus = Inr c \<and> json_load E c = Inl (Exception msg) \<longrightarrow>
      fst (contact_submit E s name email plan message) = Inl (HTTPException 500 msg)) \<and>
   (open_existing E s SUBMISSIONS_FILE RPlus = Inr (Doc (JArr xs)) \<and>
    write_error E SUBMISSIONS_FILE = Some (msg, left) \<longrightarrow>
      fst (contact_submit E s name email plan message) = Inl (HTTPException 500 msg)) \<and>
   (open_existing E s SUBMISSIONS_FILE RPlus = Inr (Doc (JArr xs)) \<and>
    write_error E SUBMISSIONS_FILE = None \<longrightarrow>
      fst (contact_submit E s name email plan message) =
        Inr (JObj [(''status'', JStr ''ok''), (''detail'', JStr ''Submission received'')]) \<and>
      contact_status (fst (contact_submit E s name email plan message)) = 200) \<and>
   (contact_status (fst (contact_submit E s name email plan message)) = 200 \<or>
    contact_status (fst (contact_submit E s name email plan message)) = 500) \<and>
   (open_error E tmp WB = None \<and> write_error E tmp = None \<longrightarrow>
      voice_status (fst (voice_agent cfg E t audio language u1 u2)) = 200)"
proof -
  have 1: "open_existing E s SUBMISSIONS_FILE RPlus = Inl (Exception msg) \<longrightarrow>
      fst (contact_submit E s name email plan message) = Inl (HTTPException 500 msg)"
    by (simp add: contact_submit_open_fails)
  have 2: "open_existing E s SUBMISSIONS_FILE RPlus = Inr c \<and> json_load E c = Inl (Exception msg) \<longrightarrow>
      fst (contact_submit E s name email plan message) = Inl (HTTPException 500 msg)"
    by (simp add: contact_submit_parse_fails)
  have 3: "open_existing E s SUBMISSIONS_FILE RPlus = Inr (Doc (JArr xs)) \<and>
    write_error E SUBMISSIONS_FILE = Some (msg, left) \<longrightarrow>
      fst (contact_submit E s name email plan message) = Inl (HTTPException 500 msg)"
    by (simp add: contact_submit_write_fails)
  have 4: "open_existing E s SUBMISSIONS_FILE RPlus = Inr (Doc (JArr xs)) \<and>
    write_error E SUBMISSIONS_FILE = None \<longrightarrow>
      fst (contact_submit E s name email plan message) =
        Inr (JObj [(''status'', JStr ''ok''), (''detail'', JStr ''Submission received'')]) \<and>
      contact_status (fst (contact_submit E s name email plan message)) = 200"
    by (simp add: contact_submit_ok contact_status_def)
  have 5: "contact_status (fst (contact_submit E s name email plan message)) = 200 \<or>
    contact_status (fst (contact_submit E s name email plan message)) = 500"
    using contact_submit_total [of E s name email plan message]
    by (auto simp: contact_status_def)
  have 6: "open_error E tmp WB = None \<and> write_error E tmp = None \<longrightarrow>
      voice_status (fst (voice_agent cfg E t audio language u1 u2)) = 200"
  proof
    assume "open_error E tmp WB = None \<and> write_error E tmp = None"
    then have op: "open_error E tmp WB = None" and wr: "write_error E tmp = None" by simp_all
    from voice_agent_after_upload [OF tmp refl refl op wr, where cfg = cfg and language = language and s = t and ?u2.0 = u2]
    obtain r t' where "voice_agent cfg E t audio language u1 u2 = (Inr r, t')" by blast
    then show "voice_status (fst (voice_agent cfg E t audio language u1 u2)) = 200"
      by (simp add: voice_status_def)
  qed
  from 1 2 3 4 5 6 show ?thesis by (intro conjI)
qed

theorem contact_submit_server_error_witness:
  "fst (contact_submit offline_env no_files ''Ana'' ''a@x.com'' None None) =
     Inl (HTTPException 500 (''[Errno 2] No such file or directory: '' @ quote SUBMISSIONS_FILE)) \<and>
   fst (contact_submit offline_env broken_store ''Ana'' ''a@x.com'' None None) =
     Inl (HTTPException 500 ''Expecting value: line 1 column 1 (char 0)'') \<and>
   fst (contact_submit disk_full_env empty_store ''Ana'' ''a@x.com'' None None) =
     Inl (HTTPException 500 ''[Errno 28] No space left on device'') \<and>
   fst (contact_submit offline_env empty_store ''Ana'' ''a@x.com'' None None) =
     Inr (JObj [(''status'', JStr ''ok''), (''detail'', JStr ''Submission received'')]) \<and>
   contact_status (fst (contact_submit offline_env empty_store ''Ana'' ''a@x.com'' None None)) = 200 \<and>
   voice_status (fst (voice_agent (load_config env_keys) offline_env no_files clip None hex1 hex2)) = 200"
proof -
  let ?tmp = "''/tmp/'' @ hex1 @
                  (let e = snd (splitext (filename clip)) in if e \<noteq> [] then e else ''.wav'')"
  have o1: "open_existing offline_env no_files SUBMISSIONS_FILE RPlus =
              Inl (Exception (''[Errno 2] No such file or directory: '' @ quote SUBMISSIONS_FILE))"
    by code_simp
  have o2: "open_existing offline_env broken_store SUBMISSIONS_FILE RPlus = Inr (Blob ''[{'') \<and>
            json_load offline_env (Blob ''[{'') =
              Inl (Exception ''Expecting value: line 1 column 1 (char 0)'')"
    by code_simp
  have o3: "open_existing disk_full_env empty_store SUBMISSIONS_FILE RPlus = Inr (Doc (JArr [])) \<and>
            write_error disk_full_env SUBMISSIONS_FILE =
              Some (''[Errno 28] No space left on device'', Blob [])"
    by code_simp
  have o4: "open_existing offline_env empty_store SUBMISSIONS_FILE RPlus = Inr (Doc (JArr [])) \<and>
            write_error offline_env SUBMISSIONS_FILE = None"
    by code_simp
  have o5: "open_error offline_env ?tmp WB = None \<and> write_error offline_env ?tmp = None"
    by code_simp
  note inst = contact_submit_server_error [OF refl, where name = "''Ana''" and email = "''a@x.com''"
      and plan = None and message = None and audio = clip and ?u1.0 = hex1]
  from inst [where E = offline_env and s = no_files
      and msg = "''[Errno 2] No such file or directory: '' @ quote SUBMISSIONS_FILE"] o1
  have 1: "fst (contact_submit offline_env no_files ''Ana'' ''a@x.com'' None None) =
     Inl (HTTPException 500 (''[Errno 2] No such file or directory: '' @ quote SUBMISSIONS_FILE))"
    by blast
  from inst [where E = offline_env and s = broken_store and c = "Blob ''[{''"
      and msg = "''Expecting value: line 1 column 1 (char 0)''"] o2
  have 2: "fst (contact_submit offline_env broken_store ''Ana'' ''a@x.com'' None None) =
     Inl (HTTPException 500 ''Expecting value: line 1 column 1 (char 0)'')"
    by blast
  from inst [where E = disk_full_env and s = empty_store and xs = "[]" and left = "Blob []"
      and msg = "''[Errno 28] No space left on device''"] o3
  have 3: "fst (contact_submit disk_full_env empty_store ''Ana'' ''a@x.com'' None None) =
     Inl (HTTPException 500 ''[Errno 28] No space left on device'')"
    by blast
  from inst [where E = offline_env and s = empty_store and xs = "[]"] o4
  have 4: "fst (contact_submit offline_env empty_store ''Ana'' ''a@x.com'' None None) =
     Inr (JObj [(''status'', JStr ''ok''), (''detail'', JStr ''Submission received'')]) \<and>
   contact_status (fst (contact_submit offline_env empty_store ''Ana'' ''a@x.com'' None None)) = 200"
    by blast
  from inst [where E = offline_env and cfg = "load_config env_keys" and t = no_files
      and language = None and ?u2.0 = hex2] o5
  have 5: "voice_status (fst (voice_agent (load_config env_keys) offline_env no_files clip None hex1 hex2)) = 200"
    by blast
  from 1 2 3 conjunct1 [OF 4] conjunct2 [OF 4] 5 show ?thesis by (intro conjI)
qed

section \<open>Lower-case lookup against keys kept in their own case\<close>



section \<open>The contact store when the file cannot be read\<close>

text \<open>
  C10: when opening the contact file raises, or decoding its content raises,
  \<open>contact_submit\<close> raises \<open>HTTPException\<close> 500 with that message and leaves the state,
  and so the content of every file, exactly as it was.
\<close>

theorem contact_read_failure_writes_nothing:
  "(open_existing E s SUBMISSIONS_FILE RPlus = Inl (Exception msg) \<longrightarrow>
      contact_submit E s name email plan message = (Inl (HTTPException 500 msg), s)) \<and>
   (open_existing E s SUBMISSIONS_FILE RPlus = Inr c \<and> json_load E c = Inl (Exception msg) \<longrightarrow>
      contact_submit E s name email plan message = (Inl (HTTPException 500 msg), s))"
  using contact_submit_open_fails [of E s msg name email plan message]
    contact_submit_parse_fails [of E s c msg name email plan message]
  by blast

theorem contact_read_failure_writes_nothing_witness:
  "contact_submit offline_env no_files ''Ana'' ''a@x.com'' None None =
     (Inl (HTTPException 500 (''[Errno 2] No such file or directory: '' @ quote SUBMISSIONS_FILE)),
      no_files) \<and>
   contact_submit offline_env broken_store ''Ana'' ''a@x.com'' None None =
     (Inl (HTTPException 500 ''Expecting value: line 1 column 1 (char 0)''), broken_store)"
proof -
  have o1: "open_existing offline_env no_files SUBMISSIONS_FILE RPlus =
              Inl (Exception (''[Errno 2] No such file or directory: '' @ quote SUBMISSIONS_FILE))"
    by code_simp
  have o2: "open_existing offline_env broken_store SUBMISSIONS_FILE RPlus = Inr (Blob ''[{'') \<and>
            json_load offline_env (Blob ''[{'') =
              Inl (Exception ''Expecting value: line 1 column 1 (char 0)'')"
    by code_simp
  from contact_read_failure_writes_nothing [of offline_env no_files
        "''[Errno 2] No such file or directory: '' @ quote SUBMISSIONS_FILE"]
    contact_read_failure_writes_nothing [of offline_env broken_store
        "''Expecting value: line 1 column 1 (char 0)''" _ _ _ _ "Blob ''[{''"]
    o1 o2
  show ?thesis by blast
qed

end
